theory Spec2Isabelle
  imports Main
begin

section \<open>JavaScript values\<close>

text \<open>
  The client is TypeScript, and the functions verified here take arguments typed
  \<^verbatim>\<open>any\<close> or read fields of parsed JSON, so their behaviour is the behaviour of the
  JavaScript runtime on untyped values. A value is \<^verbatim>\<open>undefined\<close>, \<^verbatim>\<open>null\<close>, a boolean, a
  number, a string, an array or a plain object (its own properties in enumeration
  order, keys distinct). Numbers are the integers that a double holds exactly
  (below \<open>2^53\<close> in absolute value) and \<^verbatim>\<open>NaN\<close>; strings are lists of code units
  below 256. Functions, symbols, getters, class instances and cyclic objects are
  outside the model, so a property of an object is never callable.
\<close>

datatype jsval =
    JUndefined
  | JNull
  | JBool bool
  | JNum int
  | JNaN
  | JStr string
  | JArr "jsval list"
  | JObj "(string \<times> jsval) list"

text \<open>What a \<^verbatim>\<open>throw\<close> or a rejected promise carries.\<close>

datatype exn =
    Error string      \<comment> \<open>\<^verbatim>\<open>throw new Error(msg)\<close> in the client's own code\<close>
  | TypeError         \<comment> \<open>raised by the runtime: a property of \<^verbatim>\<open>null\<close>/\<^verbatim>\<open>undefined\<close>, a call of a non-function\<close>
  | Rejected jsval    \<comment> \<open>the rejection value of a transport promise\<close>

text \<open>Sequencing of computations that may throw.\<close>

definition bindE :: "exn + 'a \<Rightarrow> ('a \<Rightarrow> exn + 'b) \<Rightarrow> exn + 'b" where
  "bindE m f = (case m of Inl e \<Rightarrow> Inl e | Inr x \<Rightarrow> f x)"

text \<open>\<^verbatim>\<open>ToBoolean\<close>: what \<^verbatim>\<open>!v\<close>, \<^verbatim>\<open>v || w\<close> and \<^verbatim>\<open>if (v)\<close> test.\<close>

fun truthy :: "jsval \<Rightarrow> bool" where
  "truthy JUndefined = False"
| "truthy JNull = False"
| "truthy (JBool b) = b"
| "truthy (JNum n) = (n \<noteq> 0)"
| "truthy JNaN = False"
| "truthy (JStr s) = (s \<noteq> [])"
| "truthy (JArr xs) = True"
| "truthy (JObj kvs) = True"

fun typeof :: "jsval \<Rightarrow> string" where
  "typeof JUndefined = ''undefined''"
| "typeof JNull = ''object''"
| "typeof (JBool b) = ''boolean''"
| "typeof (JNum n) = ''number''"
| "typeof JNaN = ''number''"
| "typeof (JStr s) = ''string''"
| "typeof (JArr xs) = ''object''"
| "typeof (JObj kvs) = ''object''"

fun isArray :: "jsval \<Rightarrow> bool" where
  "isArray (JArr xs) = True"
| "isArray v = False"

text \<open>\<^verbatim>\<open>v === null || v === undefined\<close>: what \<^verbatim>\<open>??\<close> and \<^verbatim>\<open>?.\<close> test.\<close>

fun nullish :: "jsval \<Rightarrow> bool" where
  "nullish JUndefined = True"
| "nullish JNull = True"
| "nullish v = False"

text \<open>\<^verbatim>\<open>a || b\<close> and \<^verbatim>\<open>a ?? b\<close> on values already computed.\<close>

definition js_or :: "jsval \<Rightarrow> jsval \<Rightarrow> jsval" where
  "js_or a b = (if truthy a then a else b)"

definition js_nullish_or :: "jsval \<Rightarrow> jsval \<Rightarrow> jsval" where
  "js_nullish_or a b = (if nullish a then b else a)"

text \<open>
  The property read \<^verbatim>\<open>v.k\<close>, for a name \<open>k\<close> that no built-in prototype defines
  (every name the client reads this way: \<^verbatim>\<open>response\<close>, \<^verbatim>\<open>data\<close>, \<^verbatim>\<open>detail\<close>,
  \<^verbatim>\<open>message\<close>, \<^verbatim>\<open>msg\<close>, \<^verbatim>\<open>loc\<close>, \<^verbatim>\<open>question\<close>, \<^verbatim>\<open>type\<close>, \<^verbatim>\<open>content\<close>, \<^verbatim>\<open>file_id\<close>, ...).
  Reading a property of \<^verbatim>\<open>null\<close> or \<^verbatim>\<open>undefined\<close> throws; of a primitive or an array
  it gives \<^verbatim>\<open>undefined\<close>.
\<close>

fun get :: "jsval \<Rightarrow> string \<Rightarrow> exn + jsval" where
  "get JUndefined k = Inl TypeError"
| "get JNull k = Inl TypeError"
| "get (JObj kvs) k = Inr (case map_of kvs k of None \<Rightarrow> JUndefined | Some v \<Rightarrow> v)"
| "get v k = Inr JUndefined"

text \<open>The optional chain \<^verbatim>\<open>v?.k\<close>.\<close>

definition opt_get :: "jsval \<Rightarrow> string \<Rightarrow> exn + jsval" where
  "opt_get v k = (if nullish v then Inr JUndefined else get v k)"

subsection \<open>Numbers and strings\<close>

text \<open>The decimal digits of a natural number, as \<^verbatim>\<open>Number.prototype.toString\<close> prints them.\<close>

fun digits :: "nat \<Rightarrow> string" where
  "digits n =
     (if n < 10 then [''0123456789'' ! n]
      else digits (n div 10) @ [''0123456789'' ! (n mod 10)])"

definition number_to_string :: "int \<Rightarrow> string" where
  "number_to_string i = (if i < 0 then CHR ''-'' # digits (nat (- i)) else digits (nat i))"

text \<open>
  \<^verbatim>\<open>ToString\<close>, which template literals and \<^verbatim>\<open>Array.prototype.join\<close> apply. An array
  prints as its elements joined by commas, \<^verbatim>\<open>null\<close> and \<^verbatim>\<open>undefined\<close> elements as the
  empty string. A plain object prints as \<^verbatim>\<open>[object Object]\<close>, unless it has an own
  property \<^verbatim>\<open>toString\<close>: that property is not callable, the inherited \<^verbatim>\<open>valueOf\<close>
  returns the object itself, and the conversion throws a TypeError.
\<close>

fun intersperse :: "string \<Rightarrow> string list \<Rightarrow> string" where
  "intersperse sep [] = []"
| "intersperse sep [x] = x"
| "intersperse sep (x # y # ys) = x @ sep @ intersperse sep (y # ys)"

fun toString :: "jsval \<Rightarrow> exn + string"
  and elemStrings :: "jsval list \<Rightarrow> exn + string list" where
  "toString JUndefined = Inr ''undefined''"
| "toString JNull = Inr ''null''"
| "toString (JBool b) = Inr (if b then ''true'' else ''false'')"
| "toString (JNum n) = Inr (number_to_string n)"
| "toString JNaN = Inr ''NaN''"
| "toString (JStr s) = Inr s"
| "toString (JArr xs) = bindE (elemStrings xs) (\<lambda>ss. Inr (intersperse '','' ss))"
| "toString (JObj kvs) =
     (if map_of kvs ''toString'' \<noteq> None then Inl TypeError else Inr ''[object Object]'')"
| "elemStrings [] = Inr []"
| "elemStrings (x # xs) =
     bindE (if nullish x then Inr [] else toString x)
       (\<lambda>s. bindE (elemStrings xs) (\<lambda>ss. Inr (s # ss)))"

text \<open>\<^verbatim>\<open>xs.join(sep)\<close> on an array.\<close>

definition join :: "jsval list \<Rightarrow> string \<Rightarrow> exn + string" where
  "join xs sep = bindE (elemStrings xs) (\<lambda>ss. Inr (intersperse sep ss))"

text \<open>
  White space as \<^verbatim>\<open>String.prototype.trim\<close> and \<^verbatim>\<open>parseInt\<close> skip it, among the code
  units below 256: tab, line feed, vertical tab, form feed, carriage return, space,
  no-break space.
\<close>

definition js_space :: "char \<Rightarrow> bool" where
  "js_space c \<longleftrightarrow> of_char c \<in> {9::nat, 10, 11, 12, 13, 32, 160}"


definition trim :: "string \<Rightarrow> string" where
  "trim s = rev (dropWhile js_space (rev (dropWhile js_space s)))"

definition is_digit :: "char \<Rightarrow> bool" where
  "is_digit c \<longleftrightarrow> 48 \<le> (of_char c :: nat) \<and> (of_char c :: nat) \<le> 57"









subsection \<open>\<^verbatim>\<open>JSON.stringify\<close>\<close>

text \<open>
  A string is quoted; the quote, the backslash and the control characters are escaped.
\<close>

definition hex_digit :: "nat \<Rightarrow> char" where
  "hex_digit n = ''0123456789abcdef'' ! n"

definition quote_char :: "char \<Rightarrow> string" where
  "quote_char c =
     (let n = (of_char c :: nat)
      in if n = 8 then [CHR 0x5C, CHR ''b'']
         else if n = 9 then [CHR 0x5C, CHR ''t'']
         else if n = 10 then [CHR 0x5C, CHR ''n'']
         else if n = 12 then [CHR 0x5C, CHR ''f'']
         else if n = 13 then [CHR 0x5C, CHR ''r'']
         else if n = 34 then [CHR 0x5C, CHR 0x22]
         else if n = 92 then [CHR 0x5C, CHR 0x5C]
         else if n < 32 then [CHR 0x5C, CHR ''u'', CHR ''0'', CHR ''0'',
                              hex_digit (n div 16), hex_digit (n mod 16)]
         else [c])"

definition quote :: "string \<Rightarrow> string" where
  "quote s = CHR 0x22 # concat (map quote_char s) @ [CHR 0x22]"

text \<open>
  \<^verbatim>\<open>JSON.stringify(v)\<close>; \<open>None\<close> is the result \<^verbatim>\<open>undefined\<close>. \<^verbatim>\<open>NaN\<close> prints as
  \<^verbatim>\<open>null\<close>; an \<^verbatim>\<open>undefined\<close> array element prints as \<^verbatim>\<open>null\<close>, and a property whose value
  is \<^verbatim>\<open>undefined\<close> is left out.
\<close>

fun stringify :: "jsval \<Rightarrow> string option"
  and stringify_elems :: "jsval list \<Rightarrow> string list"
  and stringify_props :: "(string \<times> jsval) list \<Rightarrow> string list" where
  "stringify JUndefined = None"
| "stringify JNull = Some ''null''"
| "stringify (JBool b) = Some (if b then ''true'' else ''false'')"
| "stringify (JNum n) = Some (number_to_string n)"
| "stringify JNaN = Some ''null''"
| "stringify (JStr s) = Some (quote s)"
| "stringify (JArr xs) = Some (''['' @ intersperse '','' (stringify_elems xs) @ '']'')"
| "stringify (JObj kvs) = Some (''{'' @ intersperse '','' (stringify_props kvs) @ ''}'')"
| "stringify_elems [] = []"
| "stringify_elems (x # xs) =
     (case stringify x of None \<Rightarrow> ''null'' | Some s \<Rightarrow> s) # stringify_elems xs"
| "stringify_props [] = []"
| "stringify_props (kv # kvs) =
     (case stringify (snd kv) of
        None \<Rightarrow> stringify_props kvs
      | Some s \<Rightarrow> (quote (fst kv) @ '':'' @ s) # stringify_props kvs)"

definition JSON_stringify :: "jsval \<Rightarrow> jsval" where
  "JSON_stringify v = (case stringify v of None \<Rightarrow> JUndefined | Some s \<Rightarrow> JStr s)"

section \<open>Job status polling (\<^verbatim>\<open>pollRepositoryStatus\<close>, lib/api.ts)\<close>

text \<open>
  \<^verbatim>\<open>Repository\<close> as the poller reads it: the status is the string the backend sent
  (the TypeScript union is not checked at run time).
\<close>

record Repository =
  repo_id :: int
  github_url :: string
  status :: string

text \<open>
  What the poller does to the outside world, in order: a status request
  (\<^verbatim>\<open>repositoryApi.getById(id)\<close>), a call of \<^verbatim>\<open>onUpdate\<close>, a timed wait.
\<close>

datatype poll_effect =
    GetById int
  | OnUpdate string
  | Wait int

text \<open>
  The loop of \<^verbatim>\<open>pollRepositoryStatus\<close>. The backend is \<open>getById\<close>: the outcome of the
  \<open>n\<close>-th status request (counted from 0), \<open>Inl\<close> when the request promise rejects.
  Every iteration issues exactly one request before \<open>attempt\<close> is incremented, so the
  request of the iteration with counter \<open>attempt\<close> is request number \<open>attempt\<close>.
  The result is the value the promise settles with and the effects in order.
\<close>

function poll_loop ::
  "(nat \<Rightarrow> exn + 'a Repository_scheme) \<Rightarrow> int \<Rightarrow> int \<Rightarrow> int \<Rightarrow> nat
    \<Rightarrow> (exn + 'a Repository_scheme) \<times> poll_effect list" where
  "poll_loop getById rid maxAttempts interval attempt =
     (if int attempt < maxAttempts then
        (case getById attempt of
           Inl e \<Rightarrow> (Inl e, [GetById rid])
         | Inr repo \<Rightarrow>
             if status repo = ''completed'' \<or> status repo = ''failed''
             then (Inr repo, [GetById rid, OnUpdate (status repo)])
             else (case poll_loop getById rid maxAttempts interval (attempt + 1) of
                     (r, effs) \<Rightarrow>
                       (r, [GetById rid, OnUpdate (status repo), Wait interval] @ effs)))
      else (Inl (Error ''Timeout waiting for repository to be processed''), []))"
  by pat_completeness auto
termination
  by (relation "measure (\<lambda>(getById, rid, maxAttempts, interval, attempt).
        nat (maxAttempts - int attempt))") auto

definition pollRepositoryStatus ::
  "(nat \<Rightarrow> exn + 'a Repository_scheme) \<Rightarrow> int \<Rightarrow> int \<Rightarrow> int
    \<Rightarrow> (exn + 'a Repository_scheme) \<times> poll_effect list" where
  "pollRepositoryStatus getById rid maxAttempts interval =
     poll_loop getById rid maxAttempts interval 0"

text \<open>The defaults of the two optional parameters.\<close>

definition default_maxAttempts :: int where "default_maxAttempts = 120"
definition default_interval :: int where "default_interval = 3000"

text \<open>The backend of Scenario A: pending, running, running, completed.\<close>

definition scenarioA :: "nat \<Rightarrow> exn + Repository" where
  "scenarioA n =
     Inr \<lparr>repo_id = 1, github_url = ''u'',
          status = (if n = 0 then ''pending'' else if n < 3 then ''running'' else ''completed'')\<rparr>"

definition terminal :: "string \<Rightarrow> bool" where
  "terminal s \<longleftrightarrow> s = ''completed'' \<or> s = ''failed''"

section \<open>Error normalisation (lib/utils/errorHandler.ts)\<close>

text \<open>
  One entry of a validation-error array, the callback of \<^verbatim>\<open>data.detail.map\<close>:
  \<^verbatim>\<open>err.loc?.slice(1).join('.') || 'field'\<close>, then the template
  \<^verbatim>\<open>`${location}: ${err.msg}`\<close>. Only an array has both a \<^verbatim>\<open>slice\<close> whose result has a
  \<^verbatim>\<open>join\<close>: on a string \<^verbatim>\<open>slice(1)\<close> gives a string, which has no \<^verbatim>\<open>join\<close>, and on a
  number, a boolean or a plain object \<^verbatim>\<open>slice\<close> is not a function; each of these calls
  throws a TypeError.
\<close>

definition slice1_join :: "jsval \<Rightarrow> exn + jsval" where
  "slice1_join loc =
     (if nullish loc then Inr JUndefined
      else (case loc of
              JArr xs \<Rightarrow> bindE (join (drop 1 xs) ''.'') (\<lambda>s. Inr (JStr s))
            | _ \<Rightarrow> Inl TypeError))"

definition detail_entry :: "jsval \<Rightarrow> exn + string" where
  "detail_entry err =
     bindE (get err ''loc'') (\<lambda>loc.
     bindE (slice1_join loc) (\<lambda>j.
     bindE (toString (js_or j (JStr ''field''))) (\<lambda>location.
     bindE (get err ''msg'') (\<lambda>msg.
     bindE (toString msg) (\<lambda>m.
       Inr (location @ '': '' @ m))))))"

text \<open>\<^verbatim>\<open>detail.map(...)\<close>: the callback runs on the entries in order; the first throw ends it.\<close>

fun detail_entries :: "jsval list \<Rightarrow> exn + string list" where
  "detail_entries [] = Inr []"
| "detail_entries (e # es) =
     bindE (detail_entry e) (\<lambda>s. bindE (detail_entries es) (\<lambda>ss. Inr (s # ss)))"

text \<open>
  The tail of \<^verbatim>\<open>extractErrorMessage\<close>, reached when there is no response body or the
  body matched none of the cases: \<^verbatim>\<open>error.message\<close>, \<^verbatim>\<open>error.msg\<close>, the last resort.
\<close>

definition message_or_fallback :: "jsval \<Rightarrow> exn + jsval" where
  "message_or_fallback error =
     bindE (get error ''message'') (\<lambda>message.
       if truthy message then Inr message
       else bindE (get error ''msg'') (\<lambda>msg.
         if truthy msg then Inr msg
         else Inr (JStr ''An unexpected error occurred'')))"

text \<open>
  \<^verbatim>\<open>extractErrorMessage(error)\<close>. The declared result type is \<^verbatim>\<open>string\<close>, but the
  function returns the field it selects as it is, so the result is a value.
\<close>

definition extractErrorMessage :: "jsval \<Rightarrow> exn + jsval" where
  "extractErrorMessage error =
     (if \<not> truthy error then Inr (JStr ''An unknown error occurred'')
      else if typeof error = ''string'' then Inr error
      else
        bindE (get error ''response'') (\<lambda>response.
        bindE (opt_get response ''data'') (\<lambda>data.
          if truthy data then
            bindE (get data ''detail'') (\<lambda>detail.
              if isArray detail then
                (case detail of
                   JArr es \<Rightarrow>
                     bindE (detail_entries es) (\<lambda>ss. Inr (JStr (intersperse ''; '' ss)))
                 | _ \<Rightarrow> Inr JUndefined)
              else if typeof detail = ''string'' then Inr detail
              else if truthy detail \<and> typeof detail = ''object'' then
                bindE (get detail ''message'') (\<lambda>message.
                  if truthy message then Inr message
                  else bindE (get detail ''msg'') (\<lambda>msg.
                    if truthy msg then Inr msg else Inr (JSON_stringify detail)))
              else
                bindE (get data ''message'') (\<lambda>message.
                  if truthy message then Inr message
                  else if typeof data = ''object'' then Inr (JSON_stringify data)
                  else message_or_fallback error))
          else message_or_fallback error)))"

text \<open>\<^verbatim>\<open>formatErrorForDisplay(error, fallback)\<close>: \<^verbatim>\<open>message || fallback || 'An error occurred'\<close>.\<close>

definition formatErrorForDisplay :: "jsval \<Rightarrow> jsval \<Rightarrow> exn + jsval" where
  "formatErrorForDisplay error fallback =
     bindE (extractErrorMessage error) (\<lambda>message.
       Inr (js_or (js_or message fallback) (JStr ''An error occurred'')))"

text \<open>\<^verbatim>\<open>safeRenderError(error, fallback)\<close>.\<close>

definition safeRenderError :: "jsval \<Rightarrow> jsval \<Rightarrow> exn + jsval" where
  "safeRenderError error fallback =
     (if typeof error = ''string'' then Inr error else formatErrorForDisplay error fallback)"


section \<open>Chat requests and the chat stream (\<^verbatim>\<open>repositoryApi\<close>, lib/api.ts)\<close>

subsection \<open>Decoded text and the UTF-8 decoder\<close>

text \<open>
  The stream delivers bytes (\<^verbatim>\<open>Uint8Array\<close> chunks, as lists of numbers below 256);
  decoded text is a list of Unicode code points.
\<close>

type_synonym ustring = "nat list"

definition text_of :: "string \<Rightarrow> ustring" where
  "text_of s = map of_char s"

text \<open>
  The state of the UTF-8 decoder of the Encoding Standard, which \<^verbatim>\<open>TextDecoder\<close>
  runs: the code point being assembled, the continuation bytes seen and needed, and
  the range allowed for the next continuation byte.
\<close>

record utf8_state =
  code_point :: nat
  bytes_seen :: nat
  bytes_needed :: nat
  lower_boundary :: nat
  upper_boundary :: nat

definition utf8_init :: utf8_state where
  "utf8_init = \<lparr>code_point = 0, bytes_seen = 0, bytes_needed = 0,
                 lower_boundary = 0x80, upper_boundary = 0xBF\<rparr>"

text \<open>
  A byte read when no sequence is open: the code points emitted and the next state.
  The masks \<^verbatim>\<open>byte & 0x1F\<close>, \<^verbatim>\<open>byte & 0xF\<close> and \<^verbatim>\<open>byte & 0x7\<close> are written as remainders.
\<close>

definition start_byte :: "nat \<Rightarrow> ustring \<times> utf8_state" where
  "start_byte b =
     (if b \<le> 0x7F then ([b], utf8_init)
      else if 0xC2 \<le> b \<and> b \<le> 0xDF then
        ([], utf8_init\<lparr>bytes_needed := 1, code_point := b mod 32\<rparr>)
      else if 0xE0 \<le> b \<and> b \<le> 0xEF then
        ([], utf8_init\<lparr>lower_boundary := (if b = 0xE0 then 0xA0 else 0x80),
                        upper_boundary := (if b = 0xED then 0x9F else 0xBF),
                        bytes_needed := 2, code_point := b mod 16\<rparr>)
      else if 0xF0 \<le> b \<and> b \<le> 0xF4 then
        ([], utf8_init\<lparr>lower_boundary := (if b = 0xF0 then 0x90 else 0x80),
                        upper_boundary := (if b = 0xF4 then 0x8F else 0xBF),
                        bytes_needed := 3, code_point := b mod 8\<rparr>)
      else ([0xFFFD], utf8_init))"

text \<open>
  A continuation byte inside its allowed range:
  \<^verbatim>\<open>code point = (code point << 6) | (byte & 0x3F)\<close>.
\<close>

definition continuation_byte :: "utf8_state \<Rightarrow> nat \<Rightarrow> ustring \<times> utf8_state" where
  "continuation_byte st b =
     (let cp = code_point st * 64 + b mod 64
      in if bytes_seen st + 1 \<noteq> bytes_needed st then
           ([], st\<lparr>code_point := cp, bytes_seen := bytes_seen st + 1,
                    lower_boundary := 0x80, upper_boundary := 0xBF\<rparr>)
         else ([cp], utf8_init))"

text \<open>
  The decoder over a whole input. A byte outside the allowed range ends the open
  sequence with U+FFFD and is then read again as the start of a new one. At the end
  of the input an open sequence is flushed as one U+FFFD.
\<close>

fun utf8_run :: "utf8_state \<Rightarrow> nat list \<Rightarrow> ustring" where
  "utf8_run st [] = (if bytes_needed st \<noteq> 0 then [0xFFFD] else [])"
| "utf8_run st (b # bs) =
     (if bytes_needed st = 0 then
        (case start_byte b of (out, st') \<Rightarrow> out @ utf8_run st' bs)
      else if b < lower_boundary st \<or> upper_boundary st < b then
        (case start_byte b of (out, st') \<Rightarrow> 0xFFFD # out @ utf8_run st' bs)
      else
        (case continuation_byte st b of (out, st') \<Rightarrow> out @ utf8_run st' bs))"

text \<open>
  \<^verbatim>\<open>decoder.decode(value)\<close> on a \<^verbatim>\<open>new TextDecoder()\<close>, called without
  \<^verbatim>\<open>{stream: true}\<close>: every call decodes its argument from the initial state, flushes
  at the end, and drops one leading byte order mark U+FEFF from its output.
\<close>

definition strip_bom :: "ustring \<Rightarrow> ustring" where
  "strip_bom t = (case t of [] \<Rightarrow> [] | c # cs \<Rightarrow> if c = 0xFEFF then cs else c # cs)"

definition TextDecoder_decode :: "nat list \<Rightarrow> ustring" where
  "TextDecoder_decode bytes = strip_bom (utf8_run utf8_init bytes)"



subsection \<open>Frames\<close>

text \<open>\<^verbatim>\<open>chunk.split('\n')\<close>: the pieces between line feeds; the last piece may be empty.\<close>

fun split_lines :: "ustring \<Rightarrow> ustring list" where
  "split_lines [] = [[]]"
| "split_lines (c # cs) =
     (if c = 10 then [] # split_lines cs
      else (case split_lines cs of
              [] \<Rightarrow> [[c]]
            | l # ls \<Rightarrow> (c # l) # ls))"

text \<open>What the stream reader does to the outside world, in order.\<close>

datatype stream_effect =
    Fetch string jsval     \<comment> \<open>\<^verbatim>\<open>fetch(url, {method: 'POST', body})\<close>\<close>
  | OnToken jsval
  | OnSources jsval
  | OnDone jsval
  | OnError jsval
  | ConsoleError           \<comment> \<open>\<^verbatim>\<open>console.error('Failed to parse SSE event:', e)\<close>\<close>
  | ReleaseLock            \<comment> \<open>\<^verbatim>\<open>reader.releaseLock()\<close>\<close>

text \<open>
  The \<^verbatim>\<open>switch (event.type)\<close> inside the \<^verbatim>\<open>try\<close>: each \<^verbatim>\<open>break\<close> leaves the
  \<^verbatim>\<open>switch\<close> only. Reading \<^verbatim>\<open>event.type\<close> throws when the payload parsed to \<^verbatim>\<open>null\<close>;
  the \<^verbatim>\<open>catch\<close> logs it. The callbacks get the fields as they are.
\<close>

definition dispatch :: "jsval \<Rightarrow> stream_effect list" where
  "dispatch event =
     (case
        bindE (get event ''type'') (\<lambda>t.
          if t = JStr ''token'' then bindE (get event ''content'') (\<lambda>c. Inr [OnToken c])
          else if t = JStr ''sources'' then bindE (get event ''content'') (\<lambda>c. Inr [OnSources c])
          else if t = JStr ''done'' then bindE (get event ''message_id'') (\<lambda>m. Inr [OnDone m])
          else if t = JStr ''error'' then bindE (get event ''content'') (\<lambda>c. Inr [OnError c])
          else Inr [])
      of Inl e \<Rightarrow> [ConsoleError] | Inr effs \<Rightarrow> effs)"

text \<open>
  One line of a chunk. \<open>parse\<close> is \<^verbatim>\<open>JSON.parse\<close>, \<open>None\<close> when it throws a
  SyntaxError. The prefix \<^verbatim>\<open>data: \<close> is six code units, none of them a surrogate, so
  \<^verbatim>\<open>line.slice(6)\<close> drops six code points.
\<close>

definition processLine :: "(ustring \<Rightarrow> jsval option) \<Rightarrow> ustring \<Rightarrow> stream_effect list" where
  "processLine parse line =
     (if take 6 line = text_of ''data: '' then
        (case parse (drop 6 line) of
           None \<Rightarrow> [ConsoleError]
         | Some event \<Rightarrow> dispatch event)
      else [])"

text \<open>The body of the \<^verbatim>\<open>while\<close> loop for one decoded chunk: the \<^verbatim>\<open>for\<close> over its lines.\<close>

definition processChunk :: "(ustring \<Rightarrow> jsval option) \<Rightarrow> ustring \<Rightarrow> stream_effect list" where
  "processChunk parse chunk = concat (map (processLine parse) (split_lines chunk))"

text \<open>
  The \<^verbatim>\<open>while (true)\<close> loop over the reads, until the reader reports \<^verbatim>\<open>done\<close>: each
  value is decoded and its lines are processed; nothing is carried from one
  iteration to the next.
\<close>

fun read_loop :: "(ustring \<Rightarrow> jsval option) \<Rightarrow> nat list list \<Rightarrow> stream_effect list" where
  "read_loop parse [] = []"
| "read_loop parse (value # rest) =
     processChunk parse (TextDecoder_decode value) @ read_loop parse rest"


subsection \<open>The two chat calls\<close>

text \<open>\<^verbatim>\<open>q.trim()\<close>: a string is trimmed; any other receiver has no callable \<^verbatim>\<open>trim\<close>.\<close>

fun trim_call :: "jsval \<Rightarrow> exn + jsval" where
  "trim_call (JStr s) = Inr (JStr (trim s))"
| "trim_call v = Inl TypeError"

text \<open>The request both calls send: the trimmed question and the defaults (\<^verbatim>\<open>??\<close>).\<close>

definition validatedRequest :: "jsval \<Rightarrow> jsval \<Rightarrow> exn + jsval" where
  "validatedRequest request question =
     bindE (get request ''top_k'') (\<lambda>top_k.
     bindE (get request ''prompt_style'') (\<lambda>prompt_style.
     bindE (get request ''include_sources'') (\<lambda>include_sources.
     bindE (get request ''include_metadata'') (\<lambda>include_metadata.
       Inr (JObj [(''question'', question),
                  (''top_k'', js_nullish_or top_k (JNum 5)),
                  (''prompt_style'', js_nullish_or prompt_style (JStr ''senior_dev'')),
                  (''include_sources'', js_nullish_or include_sources (JBool True)),
                  (''include_metadata'', js_nullish_or include_metadata (JBool True))])))))"

datatype api_effect = ApiPost string jsval   \<comment> \<open>\<^verbatim>\<open>api.post(url, body)\<close>\<close>

text \<open>
  \<^verbatim>\<open>repositoryApi.chat(id, request)\<close>. \<open>post\<close> is the transport: the \<^verbatim>\<open>data\<close> of the
  response, or the rejection. The \<^verbatim>\<open>||\<close> chain stops at the first true test, so
  \<^verbatim>\<open>trim\<close> is called on strings only. The result is the value the promise settles
  with and the requests issued.
\<close>

definition chat ::
  "(string \<Rightarrow> jsval \<Rightarrow> exn + jsval) \<Rightarrow> int \<Rightarrow> jsval \<Rightarrow> (exn + jsval) \<times> api_effect list" where
  "chat post rid request =
     (if \<not> truthy request \<or> typeof request \<noteq> ''object'' then
        (Inl (Error ''Invalid request object''), [])
      else
        (case get request ''question'' of
           Inl e \<Rightarrow> (Inl e, [])
         | Inr q \<Rightarrow>
             if \<not> truthy q \<or> typeof q \<noteq> ''string''
                \<or> (case trim_call q of Inl e \<Rightarrow> True | Inr t \<Rightarrow> \<not> truthy t)
             then (Inl (Error ''Question is required and must be a non-empty string''), [])
             else
               (case bindE (trim_call q) (validatedRequest request) of
                  Inl e \<Rightarrow> (Inl e, [])
                | Inr body \<Rightarrow>
                    (post (''/repos/'' @ number_to_string rid @ ''/chat'') body,
                     [ApiPost (''/repos/'' @ number_to_string rid @ ''/chat'') body]))))"

text \<open>
  A streamed response: its chunks in the order the reader delivers them, and how the
  stream ends (a rejection of \<^verbatim>\<open>reader.read()\<close>, or \<^verbatim>\<open>done\<close>).
\<close>

record byte_stream =
  chunks :: "nat list list"
  failure :: "exn option"

record fetch_response =
  ok :: bool
  json :: "jsval option"              \<comment> \<open>\<^verbatim>\<open>response.json()\<close>; \<open>None\<close> when it rejects\<close>
  body :: "byte_stream option"        \<comment> \<open>\<^verbatim>\<open>response.body\<close>; \<open>None\<close> for \<^verbatim>\<open>null\<close>\<close>

text \<open>The validation at the head of \<^verbatim>\<open>chatStream\<close>; the result is the trimmed question.\<close>

definition stream_question :: "jsval \<Rightarrow> exn + jsval" where
  "stream_question request =
     bindE (get request ''question'') (\<lambda>q.
       if \<not> truthy q then Inl (Error ''Question is required'')
       else bindE (trim_call q) (\<lambda>t.
         if \<not> truthy t then Inl (Error ''Question is required'') else Inr t))"

text \<open>
  \<^verbatim>\<open>repositoryApi.chatStream(id, request, onToken, onSources, onDone, onError)\<close>.
  \<open>fetch\<close> is the transport; \<open>base\<close> is \<^verbatim>\<open>API_BASE_URL\<close>. The callbacks are recorded as
  effects. The result is the value the promise settles with and the effects in order.
\<close>

definition chatStream ::
  "(ustring \<Rightarrow> jsval option) \<Rightarrow> (string \<Rightarrow> jsval \<Rightarrow> exn + fetch_response) \<Rightarrow> string
    \<Rightarrow> int \<Rightarrow> jsval \<Rightarrow> (exn + unit) \<times> stream_effect list" where
  "chatStream parse fetch base rid request =
     (case bindE (stream_question request) (validatedRequest request) of
        Inl e \<Rightarrow> (Inl e, [])
      | Inr v \<Rightarrow>
          (let url = base @ ''/repos/'' @ number_to_string rid @ ''/chat/stream'';
               payload = JSON_stringify v
           in case fetch url payload of
                Inl e \<Rightarrow> (Inl e, [Fetch url payload])
              | Inr response \<Rightarrow>
                  if \<not> ok response then
                    (bindE (get (case json response of None \<Rightarrow> JObj [] | Some d \<Rightarrow> d) ''detail'')
                       (\<lambda>detail.
                          bindE (toString (js_or detail (JStr ''Failed to start streaming chat'')))
                            (\<lambda>m. Inl (Error m))),
                     [Fetch url payload])
                  else
                    (case body response of
                       None \<Rightarrow> (Inl (Error ''Stream not available''), [Fetch url payload])
                     | Some stream \<Rightarrow>
                         ((case failure stream of None \<Rightarrow> Inr () | Some e \<Rightarrow> Inl e),
                          [Fetch url payload] @ read_loop parse (chunks stream)
                            @ [ReleaseLock]))))"

subsection \<open>\<^verbatim>\<open>JSON.parse\<close> on a fragment of JSON\<close>

text \<open>
  The functions above take \<^verbatim>\<open>JSON.parse\<close> as a parameter. To run them on wire text,
  here is \<^verbatim>\<open>JSON.parse\<close> on the texts whose numbers are integers without fraction or
  exponent (below \<open>2^53\<close> in absolute value), whose strings hold code points below 256
  and no \<^verbatim>\<open>\u\<close> escape, and whose keys are not made of digits only. Inside the
  fragment the result is the parsed value, or \<open>None\<close> for a SyntaxError; a text
  outside the fragment also gives \<open>None\<close>. A key given twice keeps its first position
  and its last value.
\<close>

definition json_ws :: "nat \<Rightarrow> bool" where
  "json_ws c \<longleftrightarrow> c = 32 \<or> c = 9 \<or> c = 10 \<or> c = 13"

definition skip_ws :: "ustring \<Rightarrow> ustring" where
  "skip_ws s = dropWhile json_ws s"

definition unescape :: "nat \<Rightarrow> char option" where
  "unescape e =
     (if e = 34 then Some (CHR 0x22)
      else if e = 92 then Some (CHR 0x5C)
      else if e = 47 then Some CHR ''/''
      else if e = 98 then Some (CHR 0x08)
      else if e = 102 then Some (CHR 0x0C)
      else if e = 110 then Some (CHR 0x0A)
      else if e = 114 then Some (CHR 0x0D)
      else if e = 116 then Some (CHR 0x09)
      else None)"

text \<open>The rest of a string after its opening quote: the string and what follows it.\<close>

fun parse_string :: "ustring \<Rightarrow> string \<Rightarrow> (string \<times> ustring) option" where
  "parse_string [] acc = None"
| "parse_string [c] acc = (if c = 34 then Some (acc, []) else None)"
| "parse_string (c # d # cs) acc =
     (if c = 34 then Some (acc, d # cs)
      else if c = 92 then
        (case unescape d of None \<Rightarrow> None | Some ch \<Rightarrow> parse_string cs (acc @ [ch]))
      else if c < 32 \<or> 256 \<le> c then None
      else parse_string (d # cs) (acc @ [char_of c]))"

definition digit_cp :: "nat \<Rightarrow> bool" where
  "digit_cp c \<longleftrightarrow> 48 \<le> c \<and> c \<le> 57"

definition decimal_cp :: "ustring \<Rightarrow> nat" where
  "decimal_cp ds = foldl (\<lambda>acc c. 10 * acc + (c - 48)) 0 ds"

text \<open>A number or one of the literals \<^verbatim>\<open>true\<close>, \<^verbatim>\<open>false\<close>, \<^verbatim>\<open>null\<close>.\<close>

definition parse_atom :: "ustring \<Rightarrow> (jsval \<times> ustring) option" where
  "parse_atom s =
     (if take 4 s = text_of ''true'' then Some (JBool True, drop 4 s)
      else if take 5 s = text_of ''false'' then Some (JBool False, drop 5 s)
      else if take 4 s = text_of ''null'' then Some (JNull, drop 4 s)
      else
        (let neg = (s \<noteq> [] \<and> hd s = 45);
             u = (if neg then tl s else s);
             ds = takeWhile digit_cp u;
             r = dropWhile digit_cp u
         in if ds = [] \<or> (1 < length ds \<and> hd ds = 48) then None
            else if r \<noteq> [] \<and> (hd r = 46 \<or> hd r = 101 \<or> hd r = 69) then None
            else Some (JNum (if neg then - int (decimal_cp ds) else int (decimal_cp ds)), r)))"

fun put :: "string \<Rightarrow> jsval \<Rightarrow> (string \<times> jsval) list \<Rightarrow> (string \<times> jsval) list" where
  "put k v [] = [(k, v)]"
| "put k v (p # ps) = (if fst p = k then (k, v) # ps else p # put k v ps)"

text \<open>
  Values, array elements and object members. The first argument bounds the depth of
  the nested calls. An array or an object costs two nested calls and has at least
  two characters, and the members of one array or object cost one call each and have
  at least two characters each, so one more than the length of the text is enough.
\<close>

fun parse_value :: "nat \<Rightarrow> ustring \<Rightarrow> (jsval \<times> ustring) option"
  and parse_elems :: "nat \<Rightarrow> ustring \<Rightarrow> jsval list \<Rightarrow> (jsval \<times> ustring) option"
  and parse_members :: "nat \<Rightarrow> ustring \<Rightarrow> (string \<times> jsval) list \<Rightarrow> (jsval \<times> ustring) option" where
  "parse_value 0 s = None"
| "parse_value (Suc n) s =
     (case skip_ws s of
        [] \<Rightarrow> None
      | c # cs \<Rightarrow>
          if c = 123 then
            (case skip_ws cs of
               [] \<Rightarrow> None
             | d # ds \<Rightarrow> if d = 125 then Some (JObj [], ds) else parse_members n cs [])
          else if c = 91 then
            (case skip_ws cs of
               [] \<Rightarrow> None
             | d # ds \<Rightarrow> if d = 93 then Some (JArr [], ds) else parse_elems n cs [])
          else if c = 34 then
            (case parse_string cs [] of
               None \<Rightarrow> None
             | Some (str, r) \<Rightarrow> Some (JStr str, r))
          else parse_atom (c # cs))"
| "parse_elems 0 s acc = None"
| "parse_elems (Suc n) s acc =
     (case parse_value n s of
        None \<Rightarrow> None
      | Some (v, r) \<Rightarrow>
          (case skip_ws r of
             [] \<Rightarrow> None
           | d # ds \<Rightarrow>
               if d = 44 then parse_elems n ds (acc @ [v])
               else if d = 93 then Some (JArr (acc @ [v]), ds)
               else None))"
| "parse_members 0 s acc = None"
| "parse_members (Suc n) s acc =
     (case skip_ws s of
        [] \<Rightarrow> None
      | q # qs \<Rightarrow>
          if q \<noteq> 34 then None
          else
            (case parse_string qs [] of
               None \<Rightarrow> None
             | Some (k, r) \<Rightarrow>
                 if k \<noteq> [] \<and> list_all is_digit k then None
                 else
                   (case skip_ws r of
                      [] \<Rightarrow> None
                    | col # r2 \<Rightarrow>
                        if col \<noteq> 58 then None
                        else
                          (case parse_value n r2 of
                             None \<Rightarrow> None
                           | Some (v, r3) \<Rightarrow>
                               (case skip_ws r3 of
                                  [] \<Rightarrow> None
                                | d # ds \<Rightarrow>
                                    if d = 44 then parse_members n ds (put k v acc)
                                    else if d = 125 then Some (JObj (put k v acc), ds)
                                    else None)))))"

definition JSON_parse :: "ustring \<Rightarrow> jsval option" where
  "JSON_parse s =
     (case parse_value (Suc (length s)) s of
        None \<Rightarrow> None
      | Some (v, r) \<Rightarrow> if skip_ws r = [] then Some v else None)"

subsection \<open>Wire inputs used in the examples\<close>





text \<open>A transport that answers every request with a successful response streaming \<open>reads\<close>.\<close>

definition ok_stream :: "nat list list \<Rightarrow> string \<Rightarrow> jsval \<Rightarrow> exn + fetch_response" where
  "ok_stream reads url payload =
     Inr \<lparr>ok = True, json = None, body = Some \<lparr>chunks = reads, failure = None\<rparr>\<rparr>"

text \<open>A transport for \<^verbatim>\<open>api.post\<close> that answers every request with \<^verbatim>\<open>null\<close> data.\<close>

definition null_post :: "string \<Rightarrow> jsval \<Rightarrow> exn + jsval" where
  "null_post url payload = Inr JNull"

section \<open>Search results (\<^verbatim>\<open>transformSearchResult\<close>, lib/api/search.ts)\<close>






section \<open>The search hook (\<^verbatim>\<open>useCodeSearch\<close>, lib/hooks/useCodeSearch.ts)\<close>

text \<open>The state cells of the hook.\<close>

record search_state =
  query :: string
  results :: jsval
  totalResults :: jsval
  isLoading :: bool
  error :: jsval
  latency :: jsval
  currentPage :: jsval
  mode :: jsval
  filters :: jsval

text \<open>
  The optional second argument of \<^verbatim>\<open>search\<close>; an absent field is \<^verbatim>\<open>undefined\<close>.
\<close>

record search_options =
  opt_mode :: jsval
  opt_filters :: jsval
  opt_page :: jsval
  opt_perPage :: jsval

text \<open>The arguments of one \<^verbatim>\<open>searchApi.search(repoId, q, {...})\<close> call.\<close>

record search_request =
  req_repo :: int
  req_q :: string
  req_mode :: jsval
  req_filters :: jsval
  req_page :: jsval
  req_perPage :: jsval

text \<open>What the hook reads of a resolved response.\<close>

record SearchResponse =
  resp_results :: jsval
  resp_totalResults :: jsval
  resp_latencyMs :: jsval

text \<open>
  \<^verbatim>\<open>search(searchQuery, searchOptions)\<close> up to its \<^verbatim>\<open>await\<close>: the query is chosen,
  turned into a string and trimmed; an empty query clears the results and returns;
  otherwise the loading flag is set, the error is cleared and the request is issued.
  \<open>perPage\<close> is \<^verbatim>\<open>options.perPage\<close> of the hook. \<^verbatim>\<open>String(q || '')\<close> may throw.
\<close>

definition search_begin ::
  "int \<Rightarrow> jsval \<Rightarrow> jsval \<Rightarrow> search_options \<Rightarrow> search_state
    \<Rightarrow> (exn + search_request option) \<times> search_state" where
  "search_begin repoId perPage searchQuery opts st =
     (let q0 = (if searchQuery \<noteq> JUndefined then searchQuery else JStr (query st))
      in case (case q0 of JStr s \<Rightarrow> Inr s | _ \<Rightarrow> toString (js_or q0 (JStr ''''))) of
           Inl e \<Rightarrow> (Inl e, st)
         | Inr q1 \<Rightarrow>
             (let q = trim q1
              in if q = [] then (Inr None, st\<lparr>results := JArr [], totalResults := JNum 0\<rparr>)
                 else
                   (Inr (Some \<lparr>req_repo = repoId, req_q = q,
                               req_mode = js_or (opt_mode opts) (mode st),
                               req_filters = js_or (opt_filters opts) (filters st),
                               req_page = js_or (opt_page opts) (currentPage st),
                               req_perPage = js_or (js_or (opt_perPage opts) perPage) (JNum 20)\<rparr>),
                    st\<lparr>isLoading := True, error := JNull\<rparr>)))"

text \<open>
  The message the \<^verbatim>\<open>catch\<close> block shows:
  \<^verbatim>\<open>err.response?.data?.detail || err.message || 'Search failed'\<close>.
\<close>

definition search_error_message :: "jsval \<Rightarrow> exn + jsval" where
  "search_error_message err =
     bindE (get err ''response'') (\<lambda>response.
     bindE (opt_get response ''data'') (\<lambda>data.
     bindE (opt_get data ''detail'') (\<lambda>detail.
       if truthy detail then Inr detail
       else bindE (get err ''message'') (\<lambda>message.
              Inr (js_or message (JStr ''Search failed''))))))"

text \<open>
  The rest of \<^verbatim>\<open>search\<close>, run when the request settles: a response is written to the
  state cells; a rejection sets the error and clears the results; \<^verbatim>\<open>finally\<close> clears
  the loading flag. Nothing identifies the call that is settling.
\<close>

definition search_settle ::
  "jsval + SearchResponse \<Rightarrow> search_state \<Rightarrow> exn option \<times> search_state" where
  "search_settle outcome st =
     (case outcome of
        Inr response \<Rightarrow>
          (None, st\<lparr>results := resp_results response,
                    totalResults := resp_totalResults response,
                    latency := resp_latencyMs response,
                    isLoading := False\<rparr>)
      | Inl err \<Rightarrow>
          (case search_error_message err of
             Inl e \<Rightarrow> (Some e, st\<lparr>isLoading := False\<rparr>)
           | Inr errorMessage \<Rightarrow>
               (None, st\<lparr>error := errorMessage, results := JArr [], totalResults := JNum 0,
                         isLoading := False\<rparr>)))"

text \<open>
  A search session: the hook state, the requests issued so far in order, and the
  indices of those that have settled. An event is a call of \<^verbatim>\<open>search\<close> or the
  settling of an outstanding request; the event loop runs them one at a time.
\<close>

record session =
  hook :: search_state
  issued :: "search_request list"
  settled :: "nat list"

datatype search_event =
    Search jsval search_options
  | Settle nat "jsval + SearchResponse"

definition step :: "int \<Rightarrow> jsval \<Rightarrow> search_event \<Rightarrow> session \<Rightarrow> session" where
  "step repoId perPage ev c =
     (case ev of
        Search searchQuery opts \<Rightarrow>
          (case search_begin repoId perPage searchQuery opts (hook c) of
             (Inr (Some req), st) \<Rightarrow> c\<lparr>hook := st, issued := issued c @ [req]\<rparr>
           | (r, st) \<Rightarrow> c\<lparr>hook := st\<rparr>)
      | Settle i outcome \<Rightarrow>
          if i < length (issued c) \<and> i \<notin> set (settled c)
          then c\<lparr>hook := snd (search_settle outcome (hook c)), settled := i # settled c\<rparr>
          else c)"

fun run :: "int \<Rightarrow> jsval \<Rightarrow> search_event list \<Rightarrow> session \<Rightarrow> session" where
  "run repoId perPage [] c = c"
| "run repoId perPage (ev # evs) c = run repoId perPage evs (step repoId perPage ev c)"

text \<open>The hook as first rendered, with no initial query and no options.\<close>

definition initial_session :: session where
  "initial_session =
     \<lparr>hook = \<lparr>query = '''', results = JArr [], totalResults = JNum 0, isLoading = False,
              error = JNull, latency = JNum 0, currentPage = JNum 1, mode = JStr ''auto'',
              filters = JObj []\<rparr>,
      issued = [], settled = []\<rparr>"

definition no_options :: search_options where
  "no_options = \<lparr>opt_mode = JUndefined, opt_filters = JUndefined,
                  opt_page = JUndefined, opt_perPage = JUndefined\<rparr>"

text \<open>Two responses, to the queries \<^verbatim>\<open>A\<close> and \<^verbatim>\<open>B\<close>.\<close>

definition response_A :: SearchResponse where
  "response_A = \<lparr>resp_results = JArr [JStr ''a1'', JStr ''a2''],
                  resp_totalResults = JNum 2, resp_latencyMs = JNum 90\<rparr>"

definition response_B :: SearchResponse where
  "response_B = \<lparr>resp_results = JArr [JStr ''b1''],
                  resp_totalResults = JNum 1, resp_latencyMs = JNum 10\<rparr>"

section \<open>Theorems: JavaScript values\<close>

lemma bindE_Inr [simp]: "bindE (Inr x) f = f x"
  by (simp add: bindE_def)

lemma bindE_Inl [simp]: "bindE (Inl e) f = Inl e"
  by (simp add: bindE_def)





lemma object_cases:
  "truthy v \<Longrightarrow> typeof v = ''object'' \<Longrightarrow> (\<exists>xs. v = JArr xs) \<or> (\<exists>kvs. v = JObj kvs)"
  by (cases v) simp_all



section \<open>Theorems: polling\<close>

lemmas poll_loop_unfold = poll_loop.simps

declare poll_loop.simps [simp del]

lemma poll_loop_stop:
  "\<not> int attempt < maxAttempts \<Longrightarrow>
   poll_loop getById rid maxAttempts interval attempt =
     (Inl (Error ''Timeout waiting for repository to be processed''), [])"
  by (simp add: poll_loop_unfold)

lemma poll_loop_terminal:
  "int attempt < maxAttempts \<Longrightarrow> getById attempt = Inr repo \<Longrightarrow> terminal (status repo) \<Longrightarrow>
   poll_loop getById rid maxAttempts interval attempt =
     (Inr repo, [GetById rid, OnUpdate (status repo)])"
  by (subst poll_loop_unfold) (simp add: terminal_def)

lemma poll_loop_continue:
  "int attempt < maxAttempts \<Longrightarrow> getById attempt = Inr repo \<Longrightarrow> \<not> terminal (status repo) \<Longrightarrow>
   poll_loop getById rid maxAttempts interval attempt =
     (fst (poll_loop getById rid maxAttempts interval (Suc attempt)),
      [GetById rid, OnUpdate (status repo), Wait interval]
        @ snd (poll_loop getById rid maxAttempts interval (Suc attempt)))"
  by (subst poll_loop_unfold) (simp add: terminal_def split: prod.splits)

lemma poll_loop_reject:
  "int attempt < maxAttempts \<Longrightarrow> getById attempt = Inl e \<Longrightarrow>
   poll_loop getById rid maxAttempts interval attempt = (Inl e, [GetById rid])"
  by (subst poll_loop_unfold) simp

text \<open>
  Once \<^verbatim>\<open>onUpdate\<close> has been called with a terminal status, nothing follows it:
  no request, no callback, no wait.
\<close>

lemma poll_loop_terminal_last:
  "snd (poll_loop getById rid maxAttempts interval attempt) = pre @ OnUpdate s # post \<Longrightarrow>
   terminal s \<Longrightarrow> post = []"
proof (induction getById rid maxAttempts interval attempt arbitrary: pre
        rule: poll_loop.induct)
  case (1 getById rid maxAttempts interval attempt)
  show ?case
  proof (cases "int attempt < maxAttempts")
    case False
    with "1.prems" show ?thesis by (simp add: poll_loop_stop)
  next
    case lt: True
    show ?thesis
    proof (cases "getById attempt")
      case (Inl e)
      with lt "1.prems" show ?thesis
        by (simp add: poll_loop_reject Cons_eq_append_conv)
    next
      case (Inr repo)
      show ?thesis
      proof (cases "terminal (status repo)")
        case True
        with lt Inr "1.prems" show ?thesis
          by (auto simp: poll_loop_terminal Cons_eq_append_conv)
      next
        case False
        let ?rest = "snd (poll_loop getById rid maxAttempts interval (Suc attempt))"
        from lt Inr False "1.prems"
        have eq: "GetById rid # OnUpdate (status repo) # Wait interval # ?rest
                    = pre @ OnUpdate s # post"
          by (simp add: poll_loop_continue)
        from eq False \<open>terminal s\<close> obtain pre' where "?rest = pre' @ OnUpdate s # post"
          by (auto simp: Cons_eq_append_conv)
        moreover from False have "\<not> (status repo = ''completed'' \<or> status repo = ''failed'')"
          by (simp add: terminal_def)
        ultimately show ?thesis
          using "1.IH" [OF lt Inr _ , of pre'] \<open>terminal s\<close> by simp
      qed
    qed
  qed
qed

text \<open>
  C6. For every \<open>maxAttempts \<ge> 4\<close>, tracking a job whose four successive status
  fetches return pending, running, running, completed resolves with the completed
  job; the effects are exactly four requests, each followed by \<^verbatim>\<open>onUpdate\<close> with the
  state just fetched and (for the first three) by the wait, in that order, and nothing
  after the terminal update. In every run, whatever the backend answers, an
  \<^verbatim>\<open>onUpdate\<close> with a terminal state (completed or failed) is the last effect.
\<close>

theorem pollRepositoryStatus_scenario:
  assumes "4 \<le> maxAttempts"
    and "getById 0 = Inr r0" and "status r0 = ''pending''"
    and "getById 1 = Inr r1" and "status r1 = ''running''"
    and "getById 2 = Inr r2" and "status r2 = ''running''"
    and "getById 3 = Inr r3" and "status r3 = ''completed''"
  shows "pollRepositoryStatus getById rid maxAttempts interval =
           (Inr r3,
            [GetById rid, OnUpdate ''pending'', Wait interval,
             GetById rid, OnUpdate ''running'', Wait interval,
             GetById rid, OnUpdate ''running'', Wait interval,
             GetById rid, OnUpdate ''completed''])
         \<and> (\<forall>g m pre s post.
               snd (pollRepositoryStatus g rid m interval) = pre @ OnUpdate s # post
               \<and> terminal s \<longrightarrow> post = [])"
proof
  have s3: "poll_loop getById rid maxAttempts interval 3
              = (Inr r3, [GetById rid, OnUpdate ''completed''])"
    using assms poll_loop_terminal [of 3 maxAttempts getById r3 rid interval]
    by (simp add: terminal_def)
  have s2: "poll_loop getById rid maxAttempts interval 2
              = (Inr r3, [GetById rid, OnUpdate ''running'', Wait interval,
                          GetById rid, OnUpdate ''completed''])"
    using assms poll_loop_continue [of 2 maxAttempts getById r2 rid interval] s3
    by (simp add: terminal_def numeral_3_eq_3 numeral_2_eq_2)
  have s1: "poll_loop getById rid maxAttempts interval 1
              = (Inr r3, [GetById rid, OnUpdate ''running'', Wait interval,
                          GetById rid, OnUpdate ''running'', Wait interval,
                          GetById rid, OnUpdate ''completed''])"
    using assms poll_loop_continue [of 1 maxAttempts getById r1 rid interval] s2
    by (simp add: terminal_def numeral_2_eq_2)
  show "pollRepositoryStatus getById rid maxAttempts interval =
           (Inr r3,
            [GetById rid, OnUpdate ''pending'', Wait interval,
             GetById rid, OnUpdate ''running'', Wait interval,
             GetById rid, OnUpdate ''running'', Wait interval,
             GetById rid, OnUpdate ''completed''])"
    using assms poll_loop_continue [of 0 maxAttempts getById r0 rid interval] s1
    by (simp add: terminal_def pollRepositoryStatus_def)
next
  show "\<forall>g m pre s post.
          snd (pollRepositoryStatus g rid m interval) = pre @ OnUpdate s # post
          \<and> terminal s \<longrightarrow> post = []"
    unfolding pollRepositoryStatus_def using poll_loop_terminal_last by blast
qed

theorem pollRepositoryStatus_scenario_witness:
  "pollRepositoryStatus scenarioA 7 default_maxAttempts default_interval =
     (Inr \<lparr>repo_id = 1, github_url = ''u'', status = ''completed''\<rparr>,
      [GetById 7, OnUpdate ''pending'', Wait 3000,
       GetById 7, OnUpdate ''running'', Wait 3000,
       GetById 7, OnUpdate ''running'', Wait 3000,
       GetById 7, OnUpdate ''completed''])"
  using pollRepositoryStatus_scenario
    [of default_maxAttempts scenarioA
        "\<lparr>repo_id = 1, github_url = ''u'', status = ''pending''\<rparr>"
        "\<lparr>repo_id = 1, github_url = ''u'', status = ''running''\<rparr>"
        "\<lparr>repo_id = 1, github_url = ''u'', status = ''running''\<rparr>"
        "\<lparr>repo_id = 1, github_url = ''u'', status = ''completed''\<rparr>"
        7 default_interval, THEN conjunct1]
  by (simp add: scenarioA_def default_maxAttempts_def default_interval_def)

text \<open>
  C10. With \<open>maxAttempts \<le> 0\<close> the loop body never runs: the call rejects with the
  timeout error, and no status request is issued and \<^verbatim>\<open>onUpdate\<close> is never called.
\<close>

theorem pollRepositoryStatus_nonpositive:
  "maxAttempts \<le> 0 \<Longrightarrow>
   pollRepositoryStatus getById rid maxAttempts interval
     = (Inl (Error ''Timeout waiting for repository to be processed''), [])"
  by (simp add: pollRepositoryStatus_def poll_loop_stop)

theorem pollRepositoryStatus_nonpositive_witness:
  "(0::int) \<le> 0 \<and>
   pollRepositoryStatus scenarioA 7 0 default_interval
     = (Inl (Error ''Timeout waiting for repository to be processed''), [])"
  using pollRepositoryStatus_nonpositive [of 0 scenarioA 7 default_interval]
  by simp

section \<open>Theorems: error normalisation\<close>












text \<open>
  C9 (as amended). A non-empty string is returned unchanged. The empty string is
  falsy, so the first test (\<^verbatim>\<open>!error\<close>) catches it together with \<^verbatim>\<open>null\<close> and
  \<^verbatim>\<open>undefined\<close>, and the generic message is returned instead.
\<close>

theorem extractErrorMessage_string:
  "extractErrorMessage (JStr s)
     = Inr (JStr (if s = [] then ''An unknown error occurred'' else s))
   \<and> extractErrorMessage JNull = Inr (JStr ''An unknown error occurred'')
   \<and> extractErrorMessage JUndefined = Inr (JStr ''An unknown error occurred'')"
  by (simp add: extractErrorMessage_def)

theorem extractErrorMessage_string_counterexample:
  "extractErrorMessage (JStr '''') \<noteq> Inr (JStr '''')"
  by (simp add: extractErrorMessage_def)

section \<open>Theorems: the decoder\<close>


text \<open>A byte \<open>128 + b\<close> with \<open>b < 64\<close> is a continuation byte: alone, it is an error.\<close>

lemma start_continuation:
  "b < 64 \<Longrightarrow> start_byte (128 + b) = ([0xFFFD], utf8_init)"
  by (simp add: start_byte_def)














section \<open>Theorems: frames and chat requests\<close>









lemma trim_blank:
  assumes "list_all js_space s"
  shows "trim s = []"
proof -
  from assms have "dropWhile js_space s = []"
    by (induction s) simp_all
  then have "trim s = rev (dropWhile js_space (rev []))"
    by (simp only: trim_def)
  then show ?thesis by simp
qed










text \<open>
  C8. For every empty or whitespace-only question, both chat calls fail with the
  validation error and issue no request: the effect list is empty.
\<close>

theorem chat_blank_question:
  assumes "list_all js_space q" and "get request ''question'' = Inr (JStr q)"
  shows "chat post rid request
           = (Inl (Error ''Question is required and must be a non-empty string''), [])
         \<and> chatStream parse fetch base rid request
           = (Inl (Error ''Question is required''), [])"
proof -
  from assms(2) obtain kvs where req: "request = JObj kvs"
    by (cases request) simp_all
  have t: "trim q = []" using assms(1) by (rule trim_blank)
  have "chat post rid request
          = (Inl (Error ''Question is required and must be a non-empty string''), [])"
    using assms(2) t req by (simp add: chat_def)
  moreover have "chatStream parse fetch base rid request
          = (Inl (Error ''Question is required''), [])"
    using assms(2) t by (simp add: chatStream_def stream_question_def)
  ultimately show ?thesis by simp
qed

theorem chat_blank_question_witness:
  "list_all js_space [CHR '' '', CHR 0x09, CHR 0x0A]
   \<and> chat null_post 1 (JObj [(''question'', JStr [CHR '' '', CHR 0x09, CHR 0x0A])])
       = (Inl (Error ''Question is required and must be a non-empty string''), [])
   \<and> chatStream JSON_parse (ok_stream []) ''http://localhost:8000'' 1
         (JObj [(''question'', JStr [CHR '' '', CHR 0x09, CHR 0x0A])])
       = (Inl (Error ''Question is required''), [])"
proof -
  have h: "list_all js_space [CHR '' '', CHR 0x09, CHR 0x0A]"
    by (simp add: js_space_def)
  have g: "get (JObj [(''question'', JStr [CHR '' '', CHR 0x09, CHR 0x0A])]) ''question''
             = Inr (JStr [CHR '' '', CHR 0x09, CHR 0x0A])"
    by simp
  from chat_blank_question [OF h g] h show ?thesis by blast
qed

section \<open>Theorems: search results\<close>












section \<open>Theorems: the search hook\<close>

lemma search_settle_response:
  "snd (search_settle (Inr response) st) =
     st\<lparr>results := resp_results response, totalResults := resp_totalResults response,
        latency := resp_latencyMs response, isLoading := False\<rparr>"
  by (simp add: search_settle_def)

text \<open>
  C1 (as amended). The hook has no generation counter: a response is applied to the
  visible state whenever it arrives. After an outstanding request settles with a
  response, the visible results and total count are those of that response,
  whichever query it answers and whatever was issued or applied before; the last
  response to arrive wins.
\<close>

theorem useCodeSearch_last_response_wins:
  assumes "i < length (issued (run repoId perPage evs c))"
    and "i \<notin> set (settled (run repoId perPage evs c))"
  shows "results (hook (run repoId perPage (evs @ [Settle i (Inr response)]) c))
           = resp_results response
         \<and> totalResults (hook (run repoId perPage (evs @ [Settle i (Inr response)]) c))
           = resp_totalResults response"
proof -
  have app: "\<And>es1 es2 c. run repoId perPage (es1 @ es2) c
               = run repoId perPage es2 (run repoId perPage es1 c)"
  proof -
    fix es1 es2 c
    show "run repoId perPage (es1 @ es2) c = run repoId perPage es2 (run repoId perPage es1 c)"
      by (induction es1 arbitrary: c) simp_all
  qed
  show ?thesis
    using assms by (simp add: app step_def search_settle_response)
qed

theorem useCodeSearch_last_response_wins_witness:
  "results (hook (run 1 JUndefined
      ([Search (JStr ''A'') no_options, Search (JStr ''B'') no_options,
        Settle 1 (Inr response_B)] @ [Settle 0 (Inr response_A)]) initial_session))
     = JArr [JStr ''a1'', JStr ''a2'']
   \<and> totalResults (hook (run 1 JUndefined
      ([Search (JStr ''A'') no_options, Search (JStr ''B'') no_options,
        Settle 1 (Inr response_B)] @ [Settle 0 (Inr response_A)]) initial_session))
     = JNum 2"
proof -
  let ?evs = "[Search (JStr ''A'') no_options, Search (JStr ''B'') no_options,
               Settle 1 (Inr response_B)]"
  have s: "issued (run 1 JUndefined ?evs initial_session)
             = [\<lparr>req_repo = 1, req_q = ''A'', req_mode = JStr ''auto'', req_filters = JObj [],
                 req_page = JNum 1, req_perPage = JNum 20\<rparr>,
                \<lparr>req_repo = 1, req_q = ''B'', req_mode = JStr ''auto'', req_filters = JObj [],
                 req_page = JNum 1, req_perPage = JNum 20\<rparr>]"
    "settled (run 1 JUndefined ?evs initial_session) = [1]"
    by (simp_all add: step_def search_begin_def search_settle_def initial_session_def
          no_options_def js_or_def trim_def js_space_def)
  have h: "0 < length (issued (run 1 JUndefined ?evs initial_session))"
    "0 \<notin> set (settled (run 1 JUndefined ?evs initial_session))"
    by (simp_all only: s) simp_all
  from useCodeSearch_last_response_wins [OF h, of response_A]
  show ?thesis by (simp add: response_A_def)
qed

text \<open>
  The claim as stated fails: query A is issued, then query B; B's response arrives
  and is applied; A's response arrives last and replaces it.
\<close>

theorem useCodeSearch_stale_counterexample:
  "results (hook (run 1 JUndefined
      [Search (JStr ''A'') no_options, Search (JStr ''B'') no_options,
       Settle 1 (Inr response_B), Settle 0 (Inr response_A)] initial_session))
     = resp_results response_A
   \<and> totalResults (hook (run 1 JUndefined
      [Search (JStr ''A'') no_options, Search (JStr ''B'') no_options,
       Settle 1 (Inr response_B), Settle 0 (Inr response_A)] initial_session))
     = resp_totalResults response_A
   \<and> resp_results response_A \<noteq> resp_results response_B"
  by (simp add: step_def search_begin_def search_settle_def initial_session_def
        no_options_def js_or_def trim_def js_space_def response_A_def response_B_def)

end
